theory Spec2Isabelle
  imports Complex_Main "HOL-Library.Sublist"
begin

section \<open>CRYPTS: the filter pipeline of \<open>crypts.py\<close>\<close>

text \<open>
  The program keeps its view state in the module-level dictionary \<open>STATE\<close>, for which it
  writes one updating callback per input widget, and reads it in \<open>_define_body\<close>, which
  fetches the market page, takes the rows of its table, narrows them (row limit, name,
  price bounds) and builds one table row per surviving record.

  Python is dynamically typed: a callback stores whatever value it is given, and the
  operators of \<open>_define_body\<close> raise when the stored value has the wrong type. Values are
  therefore modelled by the datatype \<open>pyval\<close>, and every raise of the source is an \<open>Inl\<close>
  result.
\<close>

subsection \<open>Python values and exceptions\<close>

datatype error = TypeError | ValueError | AttributeError | IndexError

text \<open>
  A float is modelled by the number it denotes: a finite float by a rational, plus the two
  infinities and NaN. Rounding to binary64 and overflow to infinity are not modelled.
\<close>

datatype pyfloat = Finite rat | PosInf | NegInf | NaN

datatype pyval = PNone | PBool bool | PInt int | PFloat pyfloat | PStr string

text \<open>Sequencing of two computations that may raise: the first exception wins.\<close>

definition and_then :: "error + 'a \<Rightarrow> ('a \<Rightarrow> error + 'b) \<Rightarrow> error + 'b" where
  "and_then r f = (case r of Inl e \<Rightarrow> Inl e | Inr x \<Rightarrow> f x)"

text \<open>Truth value testing (\<open>if v:\<close>, \<open>v or None\<close>).\<close>

fun py_truthy :: "pyval \<Rightarrow> bool" where
  "py_truthy PNone = False"
| "py_truthy (PBool b) = b"
| "py_truthy (PInt i) = (i \<noteq> 0)"
| "py_truthy (PFloat f) = (f \<noteq> Finite 0)"
| "py_truthy (PStr s) = (s \<noteq> [])"

text \<open>The numeric value of an operand of \<open><\<close> or \<open>>\<close>; \<open>bool\<close> is a subclass of \<open>int\<close>.\<close>

fun num_of :: "pyval \<Rightarrow> pyfloat option" where
  "num_of (PBool b) = Some (Finite (if b then 1 else 0))"
| "num_of (PInt i) = Some (Finite (of_int i))"
| "num_of (PFloat f) = Some f"
| "num_of PNone = None"
| "num_of (PStr s) = None"

fun float_lt :: "pyfloat \<Rightarrow> pyfloat \<Rightarrow> bool" where
  "float_lt NaN y = False"
| "float_lt x NaN = False"
| "float_lt (Finite a) (Finite b) = (a < b)"
| "float_lt (Finite a) PosInf = True"
| "float_lt (Finite a) NegInf = False"
| "float_lt NegInf NegInf = False"
| "float_lt NegInf y = True"
| "float_lt PosInf y = False"

text \<open>
  \<open>a < b\<close> as the program uses it: one operand is always an \<open>int\<close> or a \<open>float\<close>, so the
  comparison is numeric or a \<open>TypeError\<close> (\<open>str\<close> or \<open>None\<close> against a number).
  \<open>a > b\<close> on these operands is \<open>b < a\<close>.
\<close>

definition py_lt :: "pyval \<Rightarrow> pyval \<Rightarrow> error + bool" where
  "py_lt a b =
     (case num_of a of
        None \<Rightarrow> Inl TypeError
      | Some x \<Rightarrow> (case num_of b of None \<Rightarrow> Inl TypeError | Some y \<Rightarrow> Inr (float_lt x y)))"

definition py_gt :: "pyval \<Rightarrow> pyval \<Rightarrow> error + bool" where
  "py_gt a b = py_lt b a"

text \<open>A slice bound must be an integer (\<open>__index__\<close>): \<open>int\<close> or \<open>bool\<close>.\<close>

fun py_index :: "pyval \<Rightarrow> error + int" where
  "py_index (PInt i) = Inr i"
| "py_index (PBool b) = Inr (if b then 1 else 0)"
| "py_index v = Inl TypeError"

text \<open>\<open>xs[:n]\<close>; a negative bound counts from the end.\<close>

definition slice_to :: "'a list \<Rightarrow> int \<Rightarrow> 'a list" where
  "slice_to xs n = (if 0 \<le> n then take (nat n) xs else take (length xs - nat (- n)) xs)"

subsection \<open>Strings\<close>

text \<open>
  Strings are lists of 8-bit characters. \<open>str.lower\<close> is modelled on the ASCII letters;
  the case mapping of other code points is outside the model.
\<close>

definition lower_char :: "char \<Rightarrow> char" where
  "lower_char c =
     (let n = (of_char c :: nat) in if 65 \<le> n \<and> n \<le> 90 then char_of (n + 32) else c)"

definition lower :: "string \<Rightarrow> string" where
  "lower s = map lower_char s"

text \<open>\<open>a in b\<close> on strings: \<open>a\<close> occurs in \<open>b\<close> as a contiguous run.\<close>

fun py_in :: "string \<Rightarrow> string \<Rightarrow> bool" where
  "py_in a [] = (a = [])"
| "py_in a (c # cs) = (prefix a (c # cs) \<or> py_in a cs)"

text \<open>\<open>v.lower()\<close> on a stored value: only a \<open>str\<close> has the method.\<close>

fun str_lower :: "pyval \<Rightarrow> error + string" where
  "str_lower (PStr s) = Inr (lower s)"
| "str_lower v = Inl AttributeError"

subsection \<open>\<open>float(text)\<close>\<close>

text \<open>
  The grammar of \<open>float\<close> on a string: surrounding whitespace is stripped, then an optional
  sign, then \<open>inf\<close>, \<open>infinity\<close> or \<open>nan\<close> in any case, or a decimal number with an optional
  fraction and exponent, where single underscores may separate digits. Anything else
  raises \<open>ValueError\<close>.

  The whitespace that \<open>float\<close> strips: the characters 9 to 13 and the space, and of the
  code points from 128 to 255 the two that are whitespace, 133 and 160. The separators
  28 to 31 are not stripped.
\<close>

definition is_space :: "char \<Rightarrow> bool" where
  "is_space c =
     (let n = (of_char c :: nat) in (9 \<le> n \<and> n \<le> 13) \<or> n = 32 \<or> n = 133 \<or> n = 160)"

definition strip :: "string \<Rightarrow> string" where
  "strip s = rev (dropWhile is_space (rev (dropWhile is_space s)))"

definition is_digit :: "char \<Rightarrow> bool" where
  "is_digit c = (let n = (of_char c :: nat) in 48 \<le> n \<and> n \<le> 57)"

definition digit_val :: "char \<Rightarrow> nat" where
  "digit_val c = of_char c - 48"

fun digitpart_ok :: "string \<Rightarrow> bool" where
  "digitpart_ok [] = False"
| "digitpart_ok [c] = is_digit c"
| "digitpart_ok (c # d # cs) =
     (is_digit c \<and> (if d = CHR ''_'' then digitpart_ok cs else digitpart_ok (d # cs)))"

definition digits_val :: "string \<Rightarrow> nat" where
  "digits_val s = foldl (\<lambda>a c. 10 * a + digit_val c) 0 (filter is_digit s)"

definition parse_sign :: "string \<Rightarrow> bool \<times> string" where
  "parse_sign s =
     (case s of
        [] \<Rightarrow> (False, [])
      | c # cs \<Rightarrow>
          if c = CHR ''-'' then (True, cs) else if c = CHR ''+'' then (False, cs) else (False, s))"

definition parse_exponent :: "string \<Rightarrow> int option" where
  "parse_exponent s =
     (case parse_sign s of
        (neg, ds) \<Rightarrow>
          if digitpart_ok ds
          then Some (if neg then - int (digits_val ds) else int (digits_val ds))
          else None)"

text \<open>The digits of a number and how many of them follow the point.\<close>

definition parse_number :: "string \<Rightarrow> (nat \<times> nat) option" where
  "parse_number m =
     (let ip = takeWhile (\<lambda>c. c \<noteq> CHR ''.'') m;
          rest = dropWhile (\<lambda>c. c \<noteq> CHR ''.'') m
      in case rest of
           [] \<Rightarrow> if digitpart_ok ip then Some (digits_val ip, 0) else None
         | dot # fp \<Rightarrow>
             if (ip = [] \<or> digitpart_ok ip) \<and> (fp = [] \<or> digitpart_ok fp)
                \<and> \<not> (ip = [] \<and> fp = [])
             then Some (digits_val (ip @ fp), length (filter is_digit fp))
             else None)"

definition scale10 :: "rat \<Rightarrow> int \<Rightarrow> rat" where
  "scale10 x e = (if 0 \<le> e then x * 10 ^ nat e else x / 10 ^ nat (- e))"

definition is_exp_char :: "char \<Rightarrow> bool" where
  "is_exp_char c = (c = CHR ''e'' \<or> c = CHR ''E'')"

definition parse_abs :: "string \<Rightarrow> pyfloat option" where
  "parse_abs s =
     (let l = lower s in
      if l = ''inf'' \<or> l = ''infinity'' then Some PosInf
      else if l = ''nan'' then Some NaN
      else
        let m = takeWhile (\<lambda>c. \<not> is_exp_char c) s;
            rest = dropWhile (\<lambda>c. \<not> is_exp_char c) s
        in case parse_number m of
             None \<Rightarrow> None
           | Some (d, k) \<Rightarrow>
               (case rest of
                  [] \<Rightarrow> Some (Finite (of_nat d / 10 ^ k))
                | ec # ex \<Rightarrow>
                    (case parse_exponent ex of
                       None \<Rightarrow> None
                     | Some e \<Rightarrow> Some (Finite (scale10 (of_nat d / 10 ^ k) e)))))"

fun float_neg :: "pyfloat \<Rightarrow> pyfloat" where
  "float_neg (Finite r) = Finite (- r)"
| "float_neg PosInf = NegInf"
| "float_neg NegInf = PosInf"
| "float_neg NaN = NaN"

definition py_float :: "string \<Rightarrow> error + pyfloat" where
  "py_float s =
     (case parse_sign (strip s) of
        (neg, u) \<Rightarrow>
          (case parse_abs u of
             None \<Rightarrow> Inl ValueError
           | Some v \<Rightarrow> Inr (if neg then float_neg v else v)))"

subsection \<open>Application state\<close>

text \<open>The dictionary \<open>STATE\<close>: a fixed set of keys, each holding any Python value.\<close>

record state =
  refresh :: pyval
  delay :: pyval
  rows :: pyval
  filter_name :: pyval
  filter_gtprice :: pyval
  filter_ltprice :: pyval

definition STATE :: state where
  "STATE = \<lparr>refresh = PBool False, delay = PInt 5, rows = PInt 10, filter_name = PNone,
            filter_gtprice = PInt 0, filter_ltprice = PInt 0\<rparr>"

text \<open>
  The callbacks written in \<open>_define_header\<close> and \<open>_define_filters\<close>. Each is
  \<open>STATE.update({key: val})\<close>; only the one of the name field changes the value
  (\<open>val or None\<close>). None of them checks the value it is given.
\<close>

definition refresh_on_toggle :: "pyval \<Rightarrow> state \<Rightarrow> state" where
  "refresh_on_toggle val st = st\<lparr>refresh := val\<rparr>"

definition delay_on_change :: "pyval \<Rightarrow> state \<Rightarrow> state" where
  "delay_on_change val st = st\<lparr>delay := val\<rparr>"

definition rows_on_change :: "pyval \<Rightarrow> state \<Rightarrow> state" where
  "rows_on_change val st = st\<lparr>rows := val\<rparr>"

definition name_on_change :: "pyval \<Rightarrow> state \<Rightarrow> state" where
  "name_on_change val st = st\<lparr>filter_name := (if py_truthy val then val else PNone)\<rparr>"

definition price_gt_on_change :: "pyval \<Rightarrow> state \<Rightarrow> state" where
  "price_gt_on_change val st = st\<lparr>filter_gtprice := val\<rparr>"

definition price_lt_on_change :: "pyval \<Rightarrow> state \<Rightarrow> state" where
  "price_lt_on_change val st = st\<lparr>filter_ltprice := val\<rparr>"

subsection \<open>The parsed page\<close>

text \<open>
  The HTML parser is a library; the model keeps what \<open>_define_body\<close> reads from its result.
  A row (\<open>tr\<close>) is the list of its children (\<open>coin.contents\<close>), taken to be elements. Of a
  cell the program reads \<open>.text\<close>, whether \<open>.find(class_="icon-Caret-down")\<close> finds
  something, and the first \<open>p\<close> element below it (\<open>.p\<close>, \<open>None\<close> when there is none); of that
  \<open>p\<close> it reads \<open>.string\<close> (which may be \<open>None\<close>) and \<open>.contents[0].text\<close>.
\<close>

record ptag =
  p_string :: "string option"
  p_contents :: "string list"

record cell =
  cell_text :: string
  cell_p :: "ptag option"
  caret_down :: bool

type_synonym coin = "cell list"

record table =
  tbody :: "coin list option"

record soup =
  soup_table :: "table option"

text \<open>\<open>soup.table.tbody.find_all(name="tr")\<close>: an attribute of \<open>None\<close> raises.\<close>

definition find_rows :: "soup \<Rightarrow> error + coin list" where
  "find_rows sp =
     (case soup_table sp of
        None \<Rightarrow> Inl AttributeError
      | Some t \<Rightarrow> (case tbody t of None \<Rightarrow> Inl AttributeError | Some trs \<Rightarrow> Inr trs))"

text \<open>\<open>coin.contents[i]\<close> for a literal \<open>i \<ge> 0\<close>.\<close>

definition contents_at :: "coin \<Rightarrow> nat \<Rightarrow> error + cell" where
  "contents_at c i = (if i < length c then Inr (c ! i) else Inl IndexError)"

text \<open>
  \<open>coin.contents[2].p.string.lower()\<close>: the name of the record is the string of the \<open>p\<close>
  element of its third child. \<open>.string\<close> of \<open>None\<close> and \<open>.lower()\<close> of \<open>None\<close> both raise
  \<open>AttributeError\<close>.
\<close>

definition coin_name :: "coin \<Rightarrow> error + string" where
  "coin_name c =
     and_then (contents_at c 2) (\<lambda>cl.
       case cell_p cl of
         None \<Rightarrow> Inl AttributeError
       | Some p \<Rightarrow> (case p_string p of None \<Rightarrow> Inl AttributeError | Some s \<Rightarrow> Inr s))"

definition coin_name_lower :: "coin \<Rightarrow> error + string" where
  "coin_name_lower c = and_then (coin_name c) (\<lambda>s. Inr (lower s))"

text \<open>\<open>float(coin.contents[3].text)\<close>\<close>

definition coin_price :: "coin \<Rightarrow> error + pyfloat" where
  "coin_price c = and_then (contents_at c 3) (\<lambda>cl. py_float (cell_text cl))"

subsection \<open>The filters of \<open>_define_body\<close>\<close>

text \<open>
  A list comprehension \<open>[x for x in xs if cond(x)]\<close> whose condition may raise: the
  condition is evaluated on the elements in order and the first exception ends it.
\<close>

fun filter_e :: "('a \<Rightarrow> error + bool) \<Rightarrow> 'a list \<Rightarrow> error + 'a list" where
  "filter_e p [] = Inr []"
| "filter_e p (x # xs) =
     (case p x of
        Inl e \<Rightarrow> Inl e
      | Inr b \<Rightarrow>
          (case filter_e p xs of Inl e \<Rightarrow> Inl e | Inr ys \<Rightarrow> Inr (if b then x # ys else ys)))"

text \<open>
  \<^verbatim>\<open>if STATE["rows"] > 0: coins_raw = coins_raw[:STATE["rows"]]\<close>
\<close>

definition row_limit :: "state \<Rightarrow> 'a list \<Rightarrow> error + 'a list" where
  "row_limit st coins_raw =
     and_then (py_gt (rows st) (PInt 0)) (\<lambda>b.
       if b then and_then (py_index (rows st)) (\<lambda>n. Inr (slice_to coins_raw n))
       else Inr coins_raw)"

text \<open>
  \<^verbatim>\<open>STATE["filter_name"].lower() in coin.contents[2].p.string.lower()\<close>
\<close>

definition name_matches :: "state \<Rightarrow> coin \<Rightarrow> error + bool" where
  "name_matches st c =
     and_then (str_lower (filter_name st)) (\<lambda>a.
       and_then (coin_name_lower c) (\<lambda>b. Inr (py_in a b)))"

definition name_filter :: "state \<Rightarrow> coin list \<Rightarrow> error + coin list" where
  "name_filter st coins_raw =
     (if py_truthy (filter_name st) then filter_e (name_matches st) coins_raw
      else Inr coins_raw)"

text \<open>
  \<^verbatim>\<open>STATE["filter_gtprice"] < float(coin.contents[3].text)\<close>: the price is parsed
  before the comparison is made.
\<close>

definition above_gtprice :: "state \<Rightarrow> coin \<Rightarrow> error + bool" where
  "above_gtprice st c = and_then (coin_price c) (\<lambda>p. py_lt (filter_gtprice st) (PFloat p))"

definition price_gt_filter :: "state \<Rightarrow> coin list \<Rightarrow> error + coin list" where
  "price_gt_filter st coins_raw =
     (if py_truthy (filter_gtprice st) then filter_e (above_gtprice st) coins_raw
      else Inr coins_raw)"

text \<open>
  \<^verbatim>\<open>STATE["filter_ltprice"] > float(coin.contents[3].text)\<close>
\<close>

definition below_ltprice :: "state \<Rightarrow> coin \<Rightarrow> error + bool" where
  "below_ltprice st c = and_then (coin_price c) (\<lambda>p. py_gt (filter_ltprice st) (PFloat p))"

definition price_lt_filter :: "state \<Rightarrow> coin list \<Rightarrow> error + coin list" where
  "price_lt_filter st coins_raw =
     (if py_truthy (filter_ltprice st) then filter_e (below_ltprice st) coins_raw
      else Inr coins_raw)"

text \<open>
  The four statements of \<open>_define_body\<close> between the extraction of the rows and the
  construction of the table, each reassigning \<open>coins_raw\<close>.
\<close>

definition apply_filters :: "state \<Rightarrow> coin list \<Rightarrow> error + coin list" where
  "apply_filters st coins_raw =
     and_then (row_limit st coins_raw) (\<lambda>c1.
       and_then (name_filter st c1) (\<lambda>c2.
         and_then (price_gt_filter st c2) (\<lambda>c3.
           price_lt_filter st c3)))"

subsection \<open>The table\<close>

text \<open>
  A label is its markup tag, its caret (for the three trend columns) and its text.
\<close>

datatype caret = CaretDown | CaretUp

record label =
  tag :: string
  glyph :: "caret option"
  content :: string

record render_row =
  name_label :: label
  price_label :: label
  last_hour :: label
  last_day :: label
  market_cap :: label

record window =
  heading :: "string list"
  body_rows :: "render_row list"

definition trend_label :: "cell \<Rightarrow> label" where
  "trend_label cl =
     (if caret_down cl then \<lparr>tag = ''rid'', glyph = Some CaretDown, content = cell_text cl\<rparr>
      else \<lparr>tag = ''griin'', glyph = Some CaretUp, content = cell_text cl\<rparr>)"

text \<open>\<open>coin.contents[7].p.contents[0].text\<close>\<close>

definition market_cap_text :: "cell \<Rightarrow> error + string" where
  "market_cap_text cl =
     (case cell_p cl of
        None \<Rightarrow> Inl AttributeError
      | Some p \<Rightarrow> (case p_contents p of [] \<Rightarrow> Inl IndexError | t # ts \<Rightarrow> Inr t))"

text \<open>The body of the loop over the surviving rows.\<close>

definition render_coin :: "coin \<Rightarrow> error + render_row" where
  "render_coin c =
     and_then (contents_at c 2) (\<lambda>n.
     and_then (contents_at c 3) (\<lambda>p.
     and_then (contents_at c 4) (\<lambda>h.
     and_then (contents_at c 5) (\<lambda>d.
     and_then (contents_at c 7) (\<lambda>m.
     and_then (market_cap_text m) (\<lambda>mt.
       Inr \<lparr>name_label = \<lparr>tag = ''bold !gradient(212)'', glyph = None, content = cell_text n\<rparr>,
            price_label = trend_label p,
            last_hour = trend_label h,
            last_day = trend_label d,
            market_cap = \<lparr>tag = ''bold'', glyph = None, content = mt\<rparr>\<rparr>))))))"

fun map_e :: "('a \<Rightarrow> error + 'b) \<Rightarrow> 'a list \<Rightarrow> error + 'b list" where
  "map_e f [] = Inr []"
| "map_e f (x # xs) =
     (case f x of
        Inl e \<Rightarrow> Inl e
      | Inr y \<Rightarrow> (case map_e f xs of Inl e \<Rightarrow> Inl e | Inr ys \<Rightarrow> Inr (y # ys)))"

text \<open>
  \<open>_define_body\<close>, from the parsed page on. The HTTP request and the parser are libraries;
  their result is the argument.
\<close>

definition define_body :: "state \<Rightarrow> soup \<Rightarrow> error + window" where
  "define_body st sp =
     and_then (find_rows sp) (\<lambda>coins_raw.
     and_then (apply_filters st coins_raw) (\<lambda>coins.
     and_then (map_e render_coin coins) (\<lambda>rs.
       Inr \<lparr>heading = [''NAME'', ''PRICE'', ''1h%'', ''24%'', ''MARKET CAP''], body_rows = rs\<rparr>)))"

subsection \<open>The application\<close>

text \<open>
  \<open>main\<close> builds the five sections once, the body among them, and hands them to the window
  manager. An exception in \<open>_define_body\<close> is caught nowhere and leaves \<open>main\<close>.

  Afterwards the program reacts to the events of its widgets only. The source hands its
  callbacks to the constructors of the checkbox and of the input fields as the keyword
  arguments \<open>on_toggle\<close> and \<open>on_change\<close>, and the initial texts as \<open>default\<close>. The
  toolkit's constructors know none of the three names: they store such arguments as
  attributes of the widget, and nothing reads or calls them. So a field starts empty, an
  edit changes the text of the field and a click the mark of the checkbox, and neither
  reaches \<open>STATE\<close>. The callback of the button \<open>Refresh Now\<close> is called, and is
  \<open>lambda *_: None\<close>.
\<close>

record widgets =
  refresh_checked :: bool
  delay_value :: string
  rows_value :: string
  name_value :: string
  price_gt_value :: string
  price_lt_value :: string

definition initial_widgets :: widgets where
  "initial_widgets =
     \<lparr>refresh_checked = False, delay_value = [], rows_value = [], name_value = [],
      price_gt_value = [], price_lt_value = []\<rparr>"

record app =
  app_state :: state
  body :: window
  inputs :: widgets

definition main :: "state \<Rightarrow> soup \<Rightarrow> error + app" where
  "main st sp =
     and_then (define_body st sp) (\<lambda>w.
       Inr \<lparr>app_state = st, body = w, inputs = initial_widgets\<rparr>)"

datatype event =
    ToggleRefresh
  | EditDelay string
  | EditRows string
  | EditName string
  | EditPriceGt string
  | EditPriceLt string
  | PressRefreshNow

fun handle :: "app \<Rightarrow> event \<Rightarrow> app" where
  "handle a ToggleRefresh =
     a\<lparr>inputs := (inputs a)\<lparr>refresh_checked := \<not> refresh_checked (inputs a)\<rparr>\<rparr>"
| "handle a (EditDelay s) = a\<lparr>inputs := (inputs a)\<lparr>delay_value := s\<rparr>\<rparr>"
| "handle a (EditRows s) = a\<lparr>inputs := (inputs a)\<lparr>rows_value := s\<rparr>\<rparr>"
| "handle a (EditName s) = a\<lparr>inputs := (inputs a)\<lparr>name_value := s\<rparr>\<rparr>"
| "handle a (EditPriceGt s) = a\<lparr>inputs := (inputs a)\<lparr>price_gt_value := s\<rparr>\<rparr>"
| "handle a (EditPriceLt s) = a\<lparr>inputs := (inputs a)\<lparr>price_lt_value := s\<rparr>\<rparr>"
| "handle a PressRefreshNow = a"

definition run_events :: "app \<Rightarrow> event list \<Rightarrow> app" where
  "run_events a evs = foldl handle a evs"

subsection \<open>Properties named by the specification\<close>

text \<open>
  A record's name contains \<open>s\<close> case-insensitively: the lower-cased \<open>s\<close> is a contiguous
  part of the lower-cased name.
\<close>

definition name_contains :: "string \<Rightarrow> coin \<Rightarrow> bool" where
  "name_contains s c =
     (case coin_name c of Inl e \<Rightarrow> False | Inr nm \<Rightarrow> sublist (lower s) (lower nm))"

text \<open>A valid refresh delay: a positive integer.\<close>

fun positive_int :: "pyval \<Rightarrow> bool" where
  "positive_int (PInt i) = (0 < i)"
| "positive_int v = False"

subsection \<open>Sample rows\<close>

text \<open>
  A row as the market page has it, reduced to what the program reads: eight cells, the
  name in the third and the price text in the fourth, each cell with a \<open>p\<close> element holding
  its text.
\<close>

definition plain_cell :: "string \<Rightarrow> cell" where
  "plain_cell t =
     \<lparr>cell_text = t, cell_p = Some \<lparr>p_string = Some t, p_contents = [t]\<rparr>, caret_down = False\<rparr>"

definition coin_row :: "string \<Rightarrow> string \<Rightarrow> coin" where
  "coin_row nm price =
     [plain_cell [], plain_cell ''1'', plain_cell nm, plain_cell price, plain_cell ''0.1%'',
      plain_cell ''0.2%'', plain_cell ''0.3%'', plain_cell ''$1B'']"

definition sample_coins :: "coin list" where
  "sample_coins =
     map (\<lambda>nm. coin_row nm ''1.5'')
       [''Bitcoin'', ''Ethereum'', ''Tether'', ''BNB'', ''Solana'', ''XRP'', ''USDC'',
        ''Dogecoin'', ''Cardano'', ''TRON'', ''Avalanche'', ''Chainlink'']"

section \<open>Properties\<close>

subsection \<open>Auxiliary facts\<close>

lemma and_then_Inl [simp]: "and_then (Inl e) f = Inl e"
  by (simp add: and_then_def)

lemma and_then_Inr [simp]: "and_then (Inr x) f = f x"
  by (simp add: and_then_def)

lemma and_then_eq_Inr: "and_then r f = Inr y \<longleftrightarrow> (\<exists>x. r = Inr x \<and> f x = Inr y)"
  by (cases r) simp_all

lemma filter_e_Inr:
  "filter_e p xs = Inr ys \<Longrightarrow>
     ys = filter (\<lambda>x. p x = Inr True) xs \<and> (\<forall>x\<in>set xs. \<exists>b. p x = Inr b)"
proof (induction xs arbitrary: ys)
  case Nil
  then show ?case by simp
next
  case (Cons x xs)
  from Cons.prems obtain b zs where b: "p x = Inr b" and zs: "filter_e p xs = Inr zs"
    and ys: "ys = (if b then x # zs else zs)"
    by (auto split: sum.splits)
  from Cons.IH [OF zs] b ys show ?case by auto
qed

lemma filter_e_total:
  "\<forall>x\<in>set xs. \<exists>b. p x = Inr b \<Longrightarrow> filter_e p xs = Inr (filter (\<lambda>x. p x = Inr True) xs)"
  by (induction xs) auto

lemma filter_e_subseq: "filter_e p xs = Inr ys \<Longrightarrow> subseq ys xs"
  by (drule filter_e_Inr) simp

lemma subseq_take: "subseq (take n xs) xs"
  by (simp add: prefix_imp_subseq take_is_prefix)

lemma row_limit_cases:
  assumes "row_limit st xs = Inr ys"
  shows "ys = xs \<or> (\<exists>n. 0 < n \<and> py_index (rows st) = Inr n \<and> ys = take (nat n) xs)"
proof (cases "rows st")
  case PNone
  with assms show ?thesis by (simp add: row_limit_def py_gt_def py_lt_def)
next
  case (PBool b)
  with assms show ?thesis
    by (cases b) (auto simp: row_limit_def py_gt_def py_lt_def slice_to_def)
next
  case (PInt i)
  with assms show ?thesis
    by (auto simp: row_limit_def py_gt_def py_lt_def slice_to_def split: if_splits)
next
  case (PFloat f)
  with assms show ?thesis
    by (auto simp: row_limit_def py_gt_def py_lt_def split: if_splits)
next
  case (PStr s)
  with assms show ?thesis by (simp add: row_limit_def py_gt_def py_lt_def)
qed

lemma row_limit_subseq: "row_limit st xs = Inr ys \<Longrightarrow> subseq ys xs"
  by (drule row_limit_cases) (auto simp: subseq_take)

lemma row_limit_PInt:
  "rows st = PInt n \<Longrightarrow> row_limit st xs = Inr (if 0 < n then take (nat n) xs else xs)"
  by (simp add: row_limit_def py_gt_def py_lt_def slice_to_def)

lemma name_filter_subseq: "name_filter st xs = Inr ys \<Longrightarrow> subseq ys xs"
  by (auto simp: name_filter_def split: if_splits dest: filter_e_subseq)

lemma price_gt_filter_subseq: "price_gt_filter st xs = Inr ys \<Longrightarrow> subseq ys xs"
  by (auto simp: price_gt_filter_def split: if_splits dest: filter_e_subseq)

lemma price_lt_filter_subseq: "price_lt_filter st xs = Inr ys \<Longrightarrow> subseq ys xs"
  by (auto simp: price_lt_filter_def split: if_splits dest: filter_e_subseq)

lemma apply_filters_steps:
  "apply_filters st coins = Inr ys \<longleftrightarrow>
     (\<exists>c1 c2 c3. row_limit st coins = Inr c1 \<and> name_filter st c1 = Inr c2
        \<and> price_gt_filter st c2 = Inr c3 \<and> price_lt_filter st c3 = Inr ys)"
  by (simp add: apply_filters_def and_then_eq_Inr)

lemma py_in_sublist: "py_in a b \<longleftrightarrow> sublist a b"
  by (induction b) (auto simp: sublist_Cons_right)

text \<open>Evaluation of the filters on the sample rows.\<close>

lemma coin_name_coin_row: "coin_name (coin_row nm p) = Inr nm"
  by (simp add: coin_name_def coin_row_def contents_at_def plain_cell_def)

lemma coin_price_coin_row: "coin_price (coin_row nm p) = py_float p"
  by (simp add: coin_price_def coin_row_def contents_at_def plain_cell_def)

lemma lower_bit: "lower ''bit'' = ''bit''"
  by code_simp

lemma lower_Bitcoin: "lower ''Bitcoin'' = ''bitcoin''"
  by code_simp

lemma lower_Ethereum: "lower ''Ethereum'' = ''ethereum''"
  by code_simp

lemma lower_Bitcoin_Cash: "lower ''Bitcoin Cash'' = ''bitcoin cash''"
  by code_simp

lemmas sample_eval =
  name_matches_def coin_name_lower_def coin_name_coin_row coin_price_coin_row
  lower_bit lower_Bitcoin lower_Ethereum lower_Bitcoin_Cash

lemma name_contains_coin_row:
  "name_contains s (coin_row nm p) = py_in (lower s) (lower nm)"
  by (simp add: name_contains_def coin_name_coin_row py_in_sublist)

lemmas py_float_eval =
  py_float_def strip_def is_space_def parse_sign_def parse_abs_def lower_def lower_char_def
  is_exp_char_def parse_number_def is_digit_def digits_val_def digit_val_def

lemma py_float_plain: "py_float ''1234.56'' = Inr (Finite (123456 / 100))"
  by (simp add: py_float_eval)

lemma py_float_500: "py_float ''500'' = Inr (Finite 500)"
  by (simp add: py_float_eval)

lemma py_float_3000: "py_float ''3000'' = Inr (Finite 3000)"
  by (simp add: py_float_eval)

lemma py_float_currency: "py_float ''$1,234.56'' = Inl ValueError"
  by (simp add: py_float_eval)


subsection \<open>The filters\<close>

text \<open>
  C9: the filters never change a record and select a subsequence of the rows they are
  given: whenever \<open>apply_filters\<close> returns, every record of the result is a record of the
  input, and the records of the result stand in the order they have in the input.
\<close>

theorem filters_select_subsequence:
  assumes "apply_filters st coins = Inr ys"
  shows "subseq ys coins \<and> set ys \<subseteq> set coins"
proof -
  from assms obtain c1 c2 c3 where
    "row_limit st coins = Inr c1" "name_filter st c1 = Inr c2"
    "price_gt_filter st c2 = Inr c3" "price_lt_filter st c3 = Inr ys"
    unfolding apply_filters_steps by blast
  then have "subseq c1 coins" "subseq c2 c1" "subseq c3 c2" "subseq ys c3"
    by (simp_all add: row_limit_subseq name_filter_subseq price_gt_filter_subseq
        price_lt_filter_subseq)
  then have s: "subseq ys coins"
    by (meson subseq_order.trans)
  then show ?thesis
    by (auto elim: list_emb_set)
qed

theorem filters_select_subsequence_witness:
  "apply_filters (STATE\<lparr>rows := PInt 2, filter_name := PStr ''bit''\<rparr>)
     [coin_row ''Ethereum'' ''1.5'', coin_row ''Bitcoin'' ''1.5'', coin_row ''Bitcoin Cash'' ''1.5'']
     = Inr [coin_row ''Bitcoin'' ''1.5'']
   \<and> subseq [coin_row ''Bitcoin'' ''1.5'']
       [coin_row ''Ethereum'' ''1.5'', coin_row ''Bitcoin'' ''1.5'', coin_row ''Bitcoin Cash'' ''1.5'']"
proof -
  have run: "apply_filters (STATE\<lparr>rows := PInt 2, filter_name := PStr ''bit''\<rparr>)
     [coin_row ''Ethereum'' ''1.5'', coin_row ''Bitcoin'' ''1.5'', coin_row ''Bitcoin Cash'' ''1.5'']
     = Inr [coin_row ''Bitcoin'' ''1.5'']"
    by (simp add: apply_filters_def row_limit_PInt name_filter_def price_gt_filter_def
        price_lt_filter_def STATE_def sample_eval)
  from filters_select_subsequence [OF run] run show ?thesis
    by simp
qed


lemma name_matches_PStr:
  "filter_name st = PStr s \<Longrightarrow>
     name_matches st c = and_then (coin_name c) (\<lambda>nm. Inr (sublist (lower s) (lower nm)))"
  by (cases "coin_name c") (simp_all add: name_matches_def coin_name_lower_def py_in_sublist)

lemma name_matches_True_iff:
  "filter_name st = PStr s \<Longrightarrow> name_matches st c = Inr True \<longleftrightarrow> name_contains s c"
  by (cases "coin_name c") (simp_all add: name_matches_PStr name_contains_def)

lemma name_filter_PStr:
  assumes "filter_name st = PStr s" "s \<noteq> []" "name_filter st coins = Inr ys"
  shows "ys = filter (name_contains s) coins"
proof -
  from assms have "filter_e (name_matches st) coins = Inr ys"
    by (simp add: name_filter_def)
  then have "ys = filter (\<lambda>c. name_matches st c = Inr True) coins"
    by (simp add: filter_e_Inr)
  with assms(1) show ?thesis
    by (simp add: name_matches_True_iff)
qed

lemma name_filter_succeeds:
  assumes "filter_name st = PStr s" "\<forall>c\<in>set coins. \<exists>nm. coin_name c = Inr nm"
  shows "\<exists>ys. name_filter st coins = Inr ys"
proof -
  from assms have "\<forall>c\<in>set coins. \<exists>b. name_matches st c = Inr b"
    by (auto simp: name_matches_PStr)
  then show ?thesis
    by (simp add: name_filter_def filter_e_total)
qed

text \<open>
  C5: when a non-empty name is set, the name filter keeps exactly the records whose name
  contains it case-insensitively, in their order; it succeeds whenever every record it
  is given has a name; and no record that survives all filters fails to match.
\<close>

theorem name_filter_exact:
  assumes "filter_name st = PStr s" and "s \<noteq> []"
  shows "(\<forall>ys. name_filter st coins = Inr ys \<longrightarrow> ys = filter (name_contains s) coins)
       \<and> ((\<forall>c\<in>set coins. \<exists>nm. coin_name c = Inr nm) \<longrightarrow> (\<exists>ys. name_filter st coins = Inr ys))
       \<and> (\<forall>zs. apply_filters st coins = Inr zs \<longrightarrow> (\<forall>c\<in>set zs. name_contains s c))"
proof (intro conjI allI impI)
  fix ys assume "name_filter st coins = Inr ys"
  with assms show "ys = filter (name_contains s) coins"
    by (rule name_filter_PStr)
next
  assume "\<forall>c\<in>set coins. \<exists>nm. coin_name c = Inr nm"
  with assms(1) show "\<exists>ys. name_filter st coins = Inr ys"
    by (rule name_filter_succeeds)
next
  fix zs assume "apply_filters st coins = Inr zs"
  then obtain c1 c2 c3 where c2: "name_filter st c1 = Inr c2"
    and c3: "price_gt_filter st c2 = Inr c3" and zs: "price_lt_filter st c3 = Inr zs"
    unfolding apply_filters_steps by blast
  from assms c2 have "c2 = filter (name_contains s) c1"
    by (rule name_filter_PStr)
  then have "\<forall>c\<in>set c2. name_contains s c"
    by simp
  moreover from c3 zs have "subseq zs c2"
    by (meson price_gt_filter_subseq price_lt_filter_subseq subseq_order.trans)
  ultimately show "\<forall>c\<in>set zs. name_contains s c"
    by (auto elim: list_emb_set)
qed

theorem name_filter_exact_witness:
  "name_filter (STATE\<lparr>filter_name := PStr ''bit''\<rparr>)
     [coin_row ''Bitcoin'' ''1.5'', coin_row ''Ethereum'' ''1.5'', coin_row ''Bitcoin Cash'' ''1.5'']
     = Inr [coin_row ''Bitcoin'' ''1.5'', coin_row ''Bitcoin Cash'' ''1.5'']
   \<and> apply_filters (STATE\<lparr>filter_name := PStr ''bit''\<rparr>)
     [coin_row ''Bitcoin'' ''1.5'', coin_row ''Ethereum'' ''1.5'', coin_row ''Bitcoin Cash'' ''1.5'']
     = Inr [coin_row ''Bitcoin'' ''1.5'', coin_row ''Bitcoin Cash'' ''1.5'']
   \<and> name_contains ''bit'' (coin_row ''Bitcoin'' ''1.5'')
   \<and> name_contains ''bit'' (coin_row ''Bitcoin Cash'' ''1.5'')
   \<and> \<not> name_contains ''bit'' (coin_row ''Ethereum'' ''1.5'')"
proof -
  let ?st = "STATE\<lparr>filter_name := PStr ''bit''\<rparr>"
  let ?coins = "[coin_row ''Bitcoin'' ''1.5'', coin_row ''Ethereum'' ''1.5'',
    coin_row ''Bitcoin Cash'' ''1.5'']"
  have set: "filter_name ?st = PStr ''bit''" "''bit'' \<noteq> []"
    by simp_all
  have named: "\<forall>c\<in>set ?coins. \<exists>nm. coin_name c = Inr nm"
    by (simp add: coin_name_coin_row)
  have sel: "filter (name_contains ''bit'') ?coins =
      [coin_row ''Bitcoin'' ''1.5'', coin_row ''Bitcoin Cash'' ''1.5'']"
    by (simp add: name_contains_coin_row lower_bit lower_Bitcoin lower_Ethereum
        lower_Bitcoin_Cash)
  have run: "apply_filters ?st ?coins =
      Inr [coin_row ''Bitcoin'' ''1.5'', coin_row ''Bitcoin Cash'' ''1.5'']"
    by (simp add: apply_filters_def row_limit_PInt name_filter_def price_gt_filter_def
        price_lt_filter_def STATE_def sample_eval)
  from name_filter_exact [OF set, of ?coins] named sel run show ?thesis
    by auto
qed

text \<open>
  C1: with a row limit \<open>n \<ge> 0\<close> and no name or price filter active, the filters return
  the first \<open>min n |input|\<close> records in order when \<open>n > 0\<close> (so at most \<open>n\<close>), and all
  records when \<open>n = 0\<close>.
\<close>

theorem row_limit_alone:
  assumes "rows st = PInt n" and "0 \<le> n"
    and "\<not> py_truthy (filter_name st)"
    and "\<not> py_truthy (filter_gtprice st)"
    and "\<not> py_truthy (filter_ltprice st)"
  shows "\<exists>ys. apply_filters st coins = Inr ys
           \<and> (0 < n \<longrightarrow> ys = take (nat n) coins \<and> length ys = min (nat n) (length coins)
                \<and> int (length ys) \<le> n)
           \<and> (n = 0 \<longrightarrow> ys = coins \<and> length ys = length coins)"
  using assms
  by (auto simp add: apply_filters_def row_limit_PInt name_filter_def price_gt_filter_def
      price_lt_filter_def)

theorem row_limit_alone_witness:
  "apply_filters (STATE\<lparr>rows := PInt 5\<rparr>) sample_coins = Inr (take 5 sample_coins)
   \<and> length sample_coins = 12 \<and> length (take 5 sample_coins) = 5
   \<and> apply_filters (STATE\<lparr>rows := PInt 0\<rparr>) sample_coins = Inr sample_coins"
proof -
  have len: "length sample_coins = 12"
    by (simp add: sample_coins_def)
  have five: "rows (STATE\<lparr>rows := PInt 5\<rparr>) = PInt 5" "(0::int) \<le> 5"
    "\<not> py_truthy (filter_name (STATE\<lparr>rows := PInt 5\<rparr>))"
    "\<not> py_truthy (filter_gtprice (STATE\<lparr>rows := PInt 5\<rparr>))"
    "\<not> py_truthy (filter_ltprice (STATE\<lparr>rows := PInt 5\<rparr>))"
    by (simp_all add: STATE_def)
  have zero: "rows (STATE\<lparr>rows := PInt 0\<rparr>) = PInt 0" "(0::int) \<le> 0"
    "\<not> py_truthy (filter_name (STATE\<lparr>rows := PInt 0\<rparr>))"
    "\<not> py_truthy (filter_gtprice (STATE\<lparr>rows := PInt 0\<rparr>))"
    "\<not> py_truthy (filter_ltprice (STATE\<lparr>rows := PInt 0\<rparr>))"
    by (simp_all add: STATE_def)
  from row_limit_alone [OF five, of sample_coins] row_limit_alone [OF zero, of sample_coins] len
  show ?thesis
    by auto
qed



lemma py_lt_True:
  "py_lt a b = Inr True \<Longrightarrow> \<exists>x y. num_of a = Some x \<and> num_of b = Some y \<and> float_lt x y"
  by (auto simp: py_lt_def split: option.splits)

lemma above_gtprice_True:
  "above_gtprice st c = Inr True \<Longrightarrow>
     \<exists>b p. num_of (filter_gtprice st) = Some b \<and> coin_price c = Inr p \<and> float_lt b p"
  by (auto simp: above_gtprice_def and_then_eq_Inr dest!: py_lt_True)

lemma below_ltprice_True:
  "below_ltprice st c = Inr True \<Longrightarrow>
     \<exists>b p. num_of (filter_ltprice st) = Some b \<and> coin_price c = Inr p \<and> float_lt p b"
  by (auto simp: below_ltprice_def py_gt_def and_then_eq_Inr dest!: py_lt_True)

lemma zero_is_falsy: "num_of v = Some (Finite 0) \<Longrightarrow> \<not> py_truthy v"
  by (cases v) (auto split: if_splits)

text \<open>
  C4: both price bounds are exclusive. Whenever the filters return and a bound is set
  (truthy), every surviving record has a parseable price with bound \<open><\<close> price for the
  lower bound and price \<open><\<close> bound for the upper one, so no record violating a set bound
  survives; a bound equal to zero is unset and its filter keeps every record. Each price
  filter returns whenever its bound is a number and every record it is given has a
  parseable price.
\<close>

theorem price_bounds_exclusive:
  assumes "apply_filters st coins = Inr ys" and "c \<in> set ys"
  shows "(py_truthy (filter_gtprice st) \<longrightarrow>
            (\<exists>b p. num_of (filter_gtprice st) = Some b \<and> coin_price c = Inr p \<and> float_lt b p))
       \<and> (py_truthy (filter_ltprice st) \<longrightarrow>
            (\<exists>b p. num_of (filter_ltprice st) = Some b \<and> coin_price c = Inr p \<and> float_lt p b))
       \<and> (num_of (filter_gtprice st) = Some (Finite 0) \<longrightarrow> price_gt_filter st xs = Inr xs)
       \<and> (num_of (filter_ltprice st) = Some (Finite 0) \<longrightarrow> price_lt_filter st xs = Inr xs)
       \<and> (num_of (filter_gtprice st) \<noteq> None \<and> (\<forall>x\<in>set xs. \<exists>p. coin_price x = Inr p) \<longrightarrow>
            (\<exists>zs. price_gt_filter st xs = Inr zs))
       \<and> (num_of (filter_ltprice st) \<noteq> None \<and> (\<forall>x\<in>set xs. \<exists>p. coin_price x = Inr p) \<longrightarrow>
            (\<exists>zs. price_lt_filter st xs = Inr zs))"
proof -
  from assms(1) obtain c2 c3 where
    c3: "price_gt_filter st c2 = Inr c3" and ys: "price_lt_filter st c3 = Inr ys"
    unfolding apply_filters_steps by blast
  from ys have "subseq ys c3"
    by (rule price_lt_filter_subseq)
  with assms(2) have c_c3: "c \<in> set c3"
    by (auto elim: list_emb_set)
  have gt: "\<exists>b p. num_of (filter_gtprice st) = Some b \<and> coin_price c = Inr p \<and> float_lt b p"
    if "py_truthy (filter_gtprice st)"
  proof -
    from that c3 have "c3 = filter (\<lambda>x. above_gtprice st x = Inr True) c2"
      by (simp add: price_gt_filter_def filter_e_Inr)
    with c_c3 have "above_gtprice st c = Inr True"
      by simp
    then show ?thesis
      by (rule above_gtprice_True)
  qed
  have lt: "\<exists>b p. num_of (filter_ltprice st) = Some b \<and> coin_price c = Inr p \<and> float_lt p b"
    if "py_truthy (filter_ltprice st)"
  proof -
    from that ys have "ys = filter (\<lambda>x. below_ltprice st x = Inr True) c3"
      by (simp add: price_lt_filter_def filter_e_Inr)
    with assms(2) have "below_ltprice st c = Inr True"
      by simp
    then show ?thesis
      by (rule below_ltprice_True)
  qed
  have gt0: "price_gt_filter st xs = Inr xs" if "num_of (filter_gtprice st) = Some (Finite 0)"
    using that by (simp add: price_gt_filter_def zero_is_falsy)
  have lt0: "price_lt_filter st xs = Inr xs" if "num_of (filter_ltprice st) = Some (Finite 0)"
    using that by (simp add: price_lt_filter_def zero_is_falsy)
  have gts: "\<exists>zs. price_gt_filter st xs = Inr zs"
    if "num_of (filter_gtprice st) \<noteq> None \<and> (\<forall>x\<in>set xs. \<exists>p. coin_price x = Inr p)"
  proof -
    from that have "\<forall>x\<in>set xs. \<exists>r. above_gtprice st x = Inr r"
      by (auto simp: above_gtprice_def py_lt_def)
    then show ?thesis
      by (simp add: price_gt_filter_def filter_e_total)
  qed
  have lts: "\<exists>zs. price_lt_filter st xs = Inr zs"
    if "num_of (filter_ltprice st) \<noteq> None \<and> (\<forall>x\<in>set xs. \<exists>p. coin_price x = Inr p)"
  proof -
    from that have "\<forall>x\<in>set xs. \<exists>r. below_ltprice st x = Inr r"
      by (auto simp: below_ltprice_def py_gt_def py_lt_def)
    then show ?thesis
      by (simp add: price_lt_filter_def filter_e_total)
  qed
  from gt lt gt0 lt0 gts lts show ?thesis
    by blast
qed

theorem price_bounds_exclusive_witness:
  "apply_filters (STATE\<lparr>filter_gtprice := PInt 1000, filter_ltprice := PInt 2000\<rparr>)
     [coin_row ''Tether'' ''500'', coin_row ''Bitcoin'' ''1234.56'', coin_row ''Maker'' ''3000'']
     = Inr [coin_row ''Bitcoin'' ''1234.56'']
   \<and> (\<exists>b p. num_of (PInt 1000) = Some b \<and> coin_price (coin_row ''Bitcoin'' ''1234.56'') = Inr p
          \<and> float_lt b p)
   \<and> (\<exists>b p. num_of (PInt 2000) = Some b \<and> coin_price (coin_row ''Bitcoin'' ''1234.56'') = Inr p
          \<and> float_lt p b)
   \<and> price_gt_filter (STATE\<lparr>filter_ltprice := PInt 2000\<rparr>)
       [coin_row ''Tether'' ''500'', coin_row ''Maker'' ''3000'']
     = Inr [coin_row ''Tether'' ''500'', coin_row ''Maker'' ''3000'']"
proof -
  let ?st = "STATE\<lparr>filter_gtprice := PInt 1000, filter_ltprice := PInt 2000\<rparr>"
  let ?coins = "[coin_row ''Tether'' ''500'', coin_row ''Bitcoin'' ''1234.56'',
    coin_row ''Maker'' ''3000'']"
  let ?btc = "coin_row ''Bitcoin'' ''1234.56''"
  have run: "apply_filters ?st ?coins = Inr [?btc]"
    by (simp add: apply_filters_def row_limit_PInt name_filter_def price_gt_filter_def
        price_lt_filter_def above_gtprice_def below_ltprice_def py_gt_def py_lt_def STATE_def
        coin_price_coin_row py_float_500 py_float_plain py_float_3000)
  have mem: "?btc \<in> set [?btc]"
    by simp
  have run0: "apply_filters (STATE\<lparr>filter_ltprice := PInt 2000\<rparr>) [coin_row ''Tether'' ''500'']
      = Inr [coin_row ''Tether'' ''500'']"
    by (simp add: apply_filters_def row_limit_PInt name_filter_def price_gt_filter_def
        price_lt_filter_def below_ltprice_def py_gt_def py_lt_def STATE_def
        coin_price_coin_row py_float_500)
  have mem0: "coin_row ''Tether'' ''500'' \<in> set [coin_row ''Tether'' ''500'']"
    by simp
  have zero: "num_of (filter_gtprice (STATE\<lparr>filter_ltprice := PInt 2000\<rparr>)) = Some (Finite 0)"
    by (simp add: STATE_def)
  from price_bounds_exclusive [OF run mem]
  have "(\<exists>b p. num_of (PInt 1000) = Some b \<and> coin_price ?btc = Inr p \<and> float_lt b p)
      \<and> (\<exists>b p. num_of (PInt 2000) = Some b \<and> coin_price ?btc = Inr p \<and> float_lt p b)"
    by simp
  moreover from price_bounds_exclusive [OF run0 mem0,
      of "[coin_row ''Tether'' ''500'', coin_row ''Maker'' ''3000'']"] zero
  have "price_gt_filter (STATE\<lparr>filter_ltprice := PInt 2000\<rparr>)
       [coin_row ''Tether'' ''500'', coin_row ''Maker'' ''3000'']
     = Inr [coin_row ''Tether'' ''500'', coin_row ''Maker'' ''3000'']"
    by blast
  ultimately show ?thesis
    using run by blast
qed

text \<open>
  C3: the price of a record is parsed by \<open>float\<close> alone, which accepts neither a
  currency symbol nor a thousands separator. With a price bound set, a record whose price
  text is \<open>$1,234.56\<close> makes the filter step raise \<open>ValueError\<close>, under the bound 1000 as
  under 2000, instead of being kept or dropped; with the name filter alone the price is not
  parsed and the record is kept. The plain text \<open>1234.56\<close> is kept under 1000 and dropped
  under 2000.
\<close>

theorem price_filter_rejects_currency_text:
  "apply_filters (STATE\<lparr>filter_gtprice := PInt 1000\<rparr>) [coin_row ''Bitcoin'' ''$1,234.56'']
     = Inl ValueError
   \<and> apply_filters (STATE\<lparr>filter_gtprice := PInt 2000\<rparr>) [coin_row ''Bitcoin'' ''$1,234.56'']
     = Inl ValueError
   \<and> apply_filters (STATE\<lparr>filter_name := PStr ''bit''\<rparr>) [coin_row ''Bitcoin'' ''$1,234.56'']
     = Inr [coin_row ''Bitcoin'' ''$1,234.56'']
   \<and> apply_filters (STATE\<lparr>filter_gtprice := PInt 1000\<rparr>) [coin_row ''Bitcoin'' ''1234.56'']
     = Inr [coin_row ''Bitcoin'' ''1234.56'']
   \<and> apply_filters (STATE\<lparr>filter_gtprice := PInt 2000\<rparr>) [coin_row ''Bitcoin'' ''1234.56'']
     = Inr []"
  by (simp add: apply_filters_def row_limit_PInt name_filter_def price_gt_filter_def
      price_lt_filter_def above_gtprice_def py_lt_def STATE_def sample_eval
      py_float_currency py_float_plain)

subsection \<open>The callbacks\<close>

text \<open>
  C10: the callback of the name field stores an empty string as \<open>None\<close>, so that after the
  field is cleared the name filter keeps all records; a non-empty string is stored as it
  is, and the stored name is active exactly when the entered string is non-empty.
\<close>

theorem cleared_name_is_unset:
  "filter_name (name_on_change (PStr []) st) = PNone
   \<and> name_filter (name_on_change (PStr []) st) coins = Inr coins
   \<and> (s \<noteq> [] \<longrightarrow> filter_name (name_on_change (PStr s) st) = PStr s)
   \<and> (py_truthy (filter_name (name_on_change (PStr s) st)) \<longleftrightarrow> s \<noteq> [])"
  by (simp add: name_on_change_def name_filter_def)

theorem cleared_name_is_unset_witness:
  "filter_name (name_on_change (PStr []) (STATE\<lparr>filter_name := PStr ''bit''\<rparr>)) = PNone
   \<and> name_filter (name_on_change (PStr []) (STATE\<lparr>filter_name := PStr ''bit''\<rparr>)) sample_coins
       = Inr sample_coins
   \<and> filter_name (name_on_change (PStr ''bit'') (STATE\<lparr>filter_name := PStr ''bit''\<rparr>))
       = PStr ''bit''
   \<and> py_truthy (filter_name (name_on_change (PStr ''bit'') (STATE\<lparr>filter_name := PStr ''bit''\<rparr>)))"
  using cleared_name_is_unset [of "STATE\<lparr>filter_name := PStr ''bit''\<rparr>" sample_coins "''bit''"]
  by simp

lemma handle_state: "app_state (handle a ev) = app_state a"
  by (cases ev) simp_all

lemma run_events_state: "app_state (run_events a evs) = app_state a"
  unfolding run_events_def
  by (induction evs arbitrary: a) (simp_all add: handle_state)

lemma main_state: "main st sp = Inr a \<Longrightarrow> app_state a = st"
  by (auto simp: main_def and_then_eq_Inr)

text \<open>
  C8: whatever is entered into the delay field, zero, a negative number or no number at
  all, the delay in \<open>STATE\<close> keeps the value it had: an edit of the field changes the text
  of the field only. No sequence of events changes the stored delay, so in the program
  started by \<open>main\<close> from the initial \<open>STATE\<close> it stays the positive integer 5.
\<close>

theorem delay_keeps_valid_value:
  "delay (app_state (handle a (EditDelay s))) = delay (app_state a)
   \<and> delay (app_state (run_events a evs)) = delay (app_state a)
   \<and> (main STATE sp = Inr a \<longrightarrow>
        delay (app_state (run_events a evs)) = PInt 5
        \<and> positive_int (delay (app_state (run_events a evs))))"
proof (intro conjI impI)
  show "delay (app_state (handle a (EditDelay s))) = delay (app_state a)"
    by (simp add: handle_state)
  show "delay (app_state (run_events a evs)) = delay (app_state a)"
    by (simp add: run_events_state)
next
  assume "main STATE sp = Inr a"
  then have "app_state a = STATE"
    by (rule main_state)
  then show "delay (app_state (run_events a evs)) = PInt 5"
    by (simp add: run_events_state STATE_def)
  then show "positive_int (delay (app_state (run_events a evs)))"
    by simp
qed

theorem delay_keeps_valid_value_witness:
  "main STATE \<lparr>soup_table = Some \<lparr>tbody = Some []\<rparr>\<rparr>
     = Inr \<lparr>app_state = STATE,
            body = \<lparr>heading = [''NAME'', ''PRICE'', ''1h%'', ''24%'', ''MARKET CAP''],
                    body_rows = []\<rparr>,
            inputs = initial_widgets\<rparr>
   \<and> delay (app_state (run_events
        \<lparr>app_state = STATE,
         body = \<lparr>heading = [''NAME'', ''PRICE'', ''1h%'', ''24%'', ''MARKET CAP''],
                 body_rows = []\<rparr>,
         inputs = initial_widgets\<rparr>
        [EditDelay ''0'', EditDelay ''-3'', EditDelay ''soon''])) = PInt 5
   \<and> positive_int (delay (app_state (run_events
        \<lparr>app_state = STATE,
         body = \<lparr>heading = [''NAME'', ''PRICE'', ''1h%'', ''24%'', ''MARKET CAP''],
                 body_rows = []\<rparr>,
         inputs = initial_widgets\<rparr>
        [EditDelay ''0'', EditDelay ''-3'', EditDelay ''soon''])))
   \<and> delay_value (inputs (run_events
        \<lparr>app_state = STATE,
         body = \<lparr>heading = [''NAME'', ''PRICE'', ''1h%'', ''24%'', ''MARKET CAP''],
                 body_rows = []\<rparr>,
         inputs = initial_widgets\<rparr>
        [EditDelay ''0''])) = ''0''"
proof -
  let ?sp = "\<lparr>soup_table = Some \<lparr>tbody = Some []\<rparr>\<rparr>"
  let ?a = "\<lparr>app_state = STATE,
    body = \<lparr>heading = [''NAME'', ''PRICE'', ''1h%'', ''24%'', ''MARKET CAP''], body_rows = []\<rparr>,
    inputs = initial_widgets\<rparr>"
  have flt: "apply_filters STATE [] = Inr []"
    by (simp add: apply_filters_def row_limit_PInt name_filter_def price_gt_filter_def
        price_lt_filter_def STATE_def)
  have start: "main STATE ?sp = Inr ?a"
    by (simp add: main_def define_body_def find_rows_def flt)
  have field: "delay_value (inputs (run_events ?a [EditDelay ''0''])) = ''0''"
    by (simp add: run_events_def)
  from delay_keeps_valid_value [of ?a "''0''"
      "[EditDelay ''0'', EditDelay ''-3'', EditDelay ''soon'']" ?sp] start
  have kept: "delay (app_state (run_events ?a
        [EditDelay ''0'', EditDelay ''-3'', EditDelay ''soon''])) = PInt 5
      \<and> positive_int (delay (app_state (run_events ?a
        [EditDelay ''0'', EditDelay ''-3'', EditDelay ''soon''])))"
    by blast
  from start kept field show ?thesis
    by (intro conjI) (rule start, rule conjunct1 [OF kept], rule conjunct2 [OF kept], rule field)
qed

subsection \<open>Errors of a cycle\<close>

lemma map_e_error:
  assumes "c \<in> set ys" and "f c = Inl e"
  shows "\<exists>e'. map_e f ys = Inl e'"
  using assms
proof (induction ys)
  case Nil
  then show ?case by simp
next
  case (Cons y ys)
  show ?case
  proof (cases "f y")
    case (Inl a)
    then show ?thesis by simp
  next
    case (Inr b)
    show ?thesis
    proof (cases "c = y")
      case True
      with Cons.prems(2) Inr show ?thesis by simp
    next
      case False
      with Cons.prems have "c \<in> set ys" by simp
      from Cons.IH [OF this Cons.prems(2)] obtain e' where "map_e f ys = Inl e'" ..
      with Inr show ?thesis by simp
    qed
  qed
qed

lemma render_coin_short:
  assumes "length c < 8"
  shows "\<exists>e. render_coin c = Inl e"
proof -
  from assms have c7: "contents_at c 7 = Inl IndexError"
    by (simp add: contents_at_def)
  show ?thesis
    unfolding render_coin_def
    by (cases "contents_at c 2"; cases "contents_at c 3"; cases "contents_at c 4";
        cases "contents_at c 5") (simp_all add: c7)
qed

lemma find_rows_missing:
  assumes "soup_table sp = None \<or> (\<exists>t. soup_table sp = Some t \<and> tbody t = None)"
  shows "find_rows sp = Inl AttributeError"
  using assms unfolding find_rows_def
  by (cases "soup_table sp") auto


text \<open>
  C7, as the code has it: when the page has no table, or the table no body, \<open>_define_body\<close>
  raises \<open>AttributeError\<close>; when a row that survives the filters has fewer than the eight
  cells read for its display, \<open>_define_body\<close> raises as well. In both cases no window and no
  row is produced, and the exception leaves \<open>main\<close>: nothing catches it.
\<close>

theorem structural_errors_propagate:
  "(soup_table sp = None \<or> (\<exists>t. soup_table sp = Some t \<and> tbody t = None) \<longrightarrow>
      define_body st sp = Inl AttributeError \<and> main st sp = Inl AttributeError)
   \<and> (find_rows sp = Inr coins \<and> apply_filters st coins = Inr ys \<and> c \<in> set ys \<and> length c < 8 \<longrightarrow>
        (\<exists>e. define_body st sp = Inl e \<and> main st sp = Inl e))"
proof (rule conjI)
  show "soup_table sp = None \<or> (\<exists>t. soup_table sp = Some t \<and> tbody t = None) \<longrightarrow>
      define_body st sp = Inl AttributeError \<and> main st sp = Inl AttributeError"
  proof (rule impI)
    assume "soup_table sp = None \<or> (\<exists>t. soup_table sp = Some t \<and> tbody t = None)"
    then have "find_rows sp = Inl AttributeError"
      by (rule find_rows_missing)
    then show "define_body st sp = Inl AttributeError \<and> main st sp = Inl AttributeError"
      by (simp add: define_body_def main_def)
  qed
  show "find_rows sp = Inr coins \<and> apply_filters st coins = Inr ys \<and> c \<in> set ys \<and> length c < 8 \<longrightarrow>
        (\<exists>e. define_body st sp = Inl e \<and> main st sp = Inl e)"
  proof (rule impI)
    assume a: "find_rows sp = Inr coins \<and> apply_filters st coins = Inr ys \<and> c \<in> set ys \<and> length c < 8"
    then have rows: "find_rows sp = Inr coins" and flt: "apply_filters st coins = Inr ys"
      and mem: "c \<in> set ys" and short: "length c < 8"
      by simp_all
    from render_coin_short [OF short] obtain e where "render_coin c = Inl e" ..
    from map_e_error [where f = render_coin, OF mem this] obtain e' where "map_e render_coin ys = Inl e'" ..
    with rows flt have "define_body st sp = Inl e' \<and> main st sp = Inl e'"
      by (simp add: define_body_def main_def)
    then show "\<exists>e. define_body st sp = Inl e \<and> main st sp = Inl e" ..
  qed
qed

text \<open>
  On a page without a table \<open>main\<close> ends with an \<open>AttributeError\<close>: the error has no
  class of its own and it ends the program.
\<close>

theorem missing_table_is_fatal:
  "main STATE \<lparr>soup_table = None\<rparr> = Inl AttributeError"
  by (simp add: main_def define_body_def find_rows_def)

theorem structural_errors_propagate_witness:
  "main STATE \<lparr>soup_table = Some \<lparr>tbody = None\<rparr>\<rparr> = Inl AttributeError
   \<and> define_body STATE \<lparr>soup_table = Some \<lparr>tbody = None\<rparr>\<rparr> = Inl AttributeError
   \<and> apply_filters STATE [coin_row ''Bitcoin'' ''1.5'', [plain_cell ''1'', plain_cell ''Ethereum'']]
       = Inr [coin_row ''Bitcoin'' ''1.5'', [plain_cell ''1'', plain_cell ''Ethereum'']]
   \<and> (\<exists>e. define_body STATE
        \<lparr>soup_table = Some \<lparr>tbody = Some [coin_row ''Bitcoin'' ''1.5'',
           [plain_cell ''1'', plain_cell ''Ethereum'']]\<rparr>\<rparr> = Inl e
      \<and> main STATE
        \<lparr>soup_table = Some \<lparr>tbody = Some [coin_row ''Bitcoin'' ''1.5'',
           [plain_cell ''1'', plain_cell ''Ethereum'']]\<rparr>\<rparr> = Inl e)"
proof -
  let ?short = "[plain_cell ''1'', plain_cell ''Ethereum'']"
  let ?coins = "[coin_row ''Bitcoin'' ''1.5'', ?short]"
  let ?sp = "\<lparr>soup_table = Some \<lparr>tbody = Some ?coins\<rparr>\<rparr>"
  have flt: "apply_filters STATE ?coins = Inr ?coins"
    by (simp add: apply_filters_def row_limit_PInt name_filter_def price_gt_filter_def
        price_lt_filter_def STATE_def)
  have rows: "find_rows ?sp = Inr ?coins"
    by (simp add: find_rows_def)
  have pre: "find_rows ?sp = Inr ?coins \<and> apply_filters STATE ?coins = Inr ?coins
      \<and> ?short \<in> set ?coins \<and> length ?short < 8"
    using flt rows by simp
  have none: "soup_table \<lparr>soup_table = Some \<lparr>tbody = None\<rparr>\<rparr> = None
      \<or> (\<exists>t. soup_table \<lparr>soup_table = Some \<lparr>tbody = None\<rparr>\<rparr> = Some t \<and> tbody t = None)"
    by simp
  from structural_errors_propagate [of "\<lparr>soup_table = Some \<lparr>tbody = None\<rparr>\<rparr>" STATE] none
  have t: "define_body STATE \<lparr>soup_table = Some \<lparr>tbody = None\<rparr>\<rparr> = Inl AttributeError
      \<and> main STATE \<lparr>soup_table = Some \<lparr>tbody = None\<rparr>\<rparr> = Inl AttributeError"
    by blast
  from structural_errors_propagate [of ?sp STATE ?coins ?coins ?short] pre
  have "\<exists>e. define_body STATE ?sp = Inl e \<and> main STATE ?sp = Inl e"
    by blast
  with t flt show ?thesis
    by simp
qed

subsection \<open>Refreshing\<close>

lemma handle_body: "body (handle a ev) = body a"
  by (cases ev) simp_all

lemma name_matches_ignores_refresh:
  "name_matches (st\<lparr>refresh := r, delay := d\<rparr>) = name_matches st"
  by (rule ext) (simp add: name_matches_def)

lemma above_gtprice_ignores_refresh:
  "above_gtprice (st\<lparr>refresh := r, delay := d\<rparr>) = above_gtprice st"
  by (rule ext) (simp add: above_gtprice_def)

lemma below_ltprice_ignores_refresh:
  "below_ltprice (st\<lparr>refresh := r, delay := d\<rparr>) = below_ltprice st"
  by (rule ext) (simp add: below_ltprice_def)

lemma apply_filters_ignores_refresh:
  "apply_filters (st\<lparr>refresh := r, delay := d\<rparr>) coins = apply_filters st coins"
  by (simp add: apply_filters_def row_limit_def name_filter_def price_gt_filter_def
      price_lt_filter_def name_matches_ignores_refresh above_gtprice_ignores_refresh
      below_ltprice_ignores_refresh cong: if_cong)

text \<open>
  C6: the program documents an auto-refresh with a configurable delay and has a button
  \<open>Refresh Now\<close>, but the callback of the button does nothing, no event rebuilds the body
  that \<open>main\<close> built, and the body does not depend on the entries \<open>refresh\<close> and \<open>delay\<close> of
  \<open>STATE\<close>: no cycle is ever triggered after the first.
\<close>

theorem refresh_never_rebuilds_body:
  "handle a PressRefreshNow = a
   \<and> body (run_events a evs) = body a
   \<and> define_body (st\<lparr>refresh := r, delay := d\<rparr>) sp = define_body st sp"
proof (intro conjI)
  show "handle a PressRefreshNow = a"
    by simp
  show "body (run_events a evs) = body a"
    unfolding run_events_def
    by (induction evs arbitrary: a) (simp_all add: handle_body)
  show "define_body (st\<lparr>refresh := r, delay := d\<rparr>) sp = define_body st sp"
    by (simp add: define_body_def apply_filters_ignores_refresh)
qed

end
